theory Spec2Isabelle
  imports Main
begin

section \<open>Shopmate: inventory service with token authentication\<close>

text \<open>
  A shallow embedding of \<^verbatim>\<open>src/app.js\<close> and \<^verbatim>\<open>src/routes/posts.js\<close>.
  Every route handler is a function from the environment of one request (signing keys,
  clock, password comparison, which storage calls reject) and the committed contents of
  the database to the response sent and the new committed contents.

  Requests are handled one after the other. The storage layer is transactional: the
  statements between \<^verbatim>\<open>beginTransaction\<close> and \<^verbatim>\<open>commit\<close> become visible together at
  the \<^verbatim>\<open>commit\<close>, a \<^verbatim>\<open>commit\<close> that rejects commits nothing, and a \<^verbatim>\<open>rollback\<close>
  drops them. The quantity of a purchase is an integer or absent and a token is a string
  or absent, as the interface types them; the fields of a new item and the credentials of
  a login are arbitrary JSON scalars, since the handlers test only their truthiness
  before they use them.
\<close>

subsection \<open>Request values\<close>

text \<open>
  A field of a JSON request body, as the handler sees it after destructuring:
  \<open>JUndefined\<close> when the field is absent. Numbers are the integers.
\<close>

datatype jsval = JUndefined | JNull | JBool bool | JNum int | JStr string

text \<open>The JavaScript test \<^verbatim>\<open>!v\<close>.\<close>

fun falsy :: "jsval \<Rightarrow> bool" where
  "falsy JUndefined = True"
| "falsy JNull = True"
| "falsy (JBool b) = (if b then False else True)"
| "falsy (JNum n) = (n = 0)"
| "falsy (JStr s) = (s = [])"

subsection \<open>Tables\<close>

text \<open>
  The four tables the queries name, with the columns the queries name. \<open>inventory\<close>
  has the unique key \<open>item_id\<close> (the handler of \<^verbatim>\<open>ER_DUP_ENTRY\<close> relies on it),
  so it is a map from \<open>item_id\<close> to the other columns; the other tables are row lists
  in insertion order.
\<close>

record user =
  uid :: int
  username :: string
  password :: string
  role :: string

record item =
  item_name :: string
  stock :: int
  price :: "int option"

record purchase =
  p_item_id :: int
  p_quantity :: int
  p_user_id :: "int option"

subsection \<open>Tokens\<close>

text \<open>
  The claims a token carries: \<^verbatim>\<open>{ id, role }\<close> in an access token, \<^verbatim>\<open>{ id }\<close> in a
  refresh token.
\<close>

record payload =
  sub_id :: int
  sub_role :: "string option"

text \<open>
  The library \<^verbatim>\<open>jsonwebtoken\<close> is modelled symbolically: a token string is either the
  signature of a payload under a key, with its issue and expiry times in seconds, or any
  other string. Two signatures are the same string exactly when payload, key and times
  agree.
\<close>

datatype jwt = Signed payload string nat nat | Raw string

text \<open>\<^verbatim>\<open>jwt.sign(payload, key, { expiresIn })\<close> at the clock \<open>now\<close> (milliseconds).\<close>

definition jwt_sign :: "payload \<Rightarrow> string \<Rightarrow> nat \<Rightarrow> nat \<Rightarrow> jwt" where
  "jwt_sign p key expiresIn now =
     Signed p key (now div 1000) (now div 1000 + expiresIn)"

text \<open>
  \<^verbatim>\<open>jwt.verify(token, key)\<close>: the payload, or \<open>None\<close> where the library throws (another
  key, the clock at or past the expiry, not a token).
\<close>

fun jwt_verify :: "jwt \<Rightarrow> string \<Rightarrow> nat \<Rightarrow> payload option" where
  "jwt_verify (Signed p k iat ex) key now =
     (if k = key \<and> now div 1000 < ex then Some p else None)"
| "jwt_verify (Raw s) key now = None"

record rtoken =
  user_id :: int
  token :: jwt
  expires_at :: nat

record db =
  users :: "user list"
  refresh_tokens :: "rtoken list"
  inventory :: "int \<Rightarrow> item option"
  purchases :: "purchase list"

subsection \<open>Environment and responses\<close>

text \<open>
  What a handler reads besides the request and the database: the two signing keys of
  \<^verbatim>\<open>process.env\<close>, \<^verbatim>\<open>Date.now()\<close>, \<^verbatim>\<open>bcrypt.compare\<close> on a plaintext string and a
  hash, the storage layer's test \<^verbatim>\<open>username = ?\<close> of a stored username against a
  parameter (its collation and its conversion of a parameter that is not a string are
  the storage layer's), and \<open>fails k\<close>: the \<open>k\<close>-th storage call in the text of the
  handler (counted from 0) rejects.
\<close>

record env =
  ACCESS_TOKEN :: string
  REFRESH_TOKEN :: string
  now_ms :: nat
  bcrypt_compare :: "string \<Rightarrow> string \<Rightarrow> bool"
  username_matches :: "string \<Rightarrow> jsval \<Rightarrow> bool"
  fails :: "nat \<Rightarrow> bool"

datatype body =
    Message string
  | Item int item
  | Created jsval jsval jsval jsval string
  | Deleted string int item
  | Session jwt jwt string
  | AccessToken jwt
  | PurchaseSuccessful int int

text \<open>
  \<open>Response status body\<close> is \<^verbatim>\<open>res.status(status).json(body)\<close>; \<open>NoResponse\<close> is a
  handler whose promise rejects before anything is sent.
\<close>

datatype response = Response nat body | NoResponse

subsection \<open>Middleware of posts.js\<close>

fun authorizeAdmin :: "payload option \<Rightarrow> response option" where
  "authorizeAdmin None =
     Some (Response 403 (Message ''Forbidden: Admin privilege required''))"
| "authorizeAdmin (Some u) =
     (if sub_role u = Some ''admin'' then None
      else Some (Response 403 (Message ''Forbidden: Admin privilege required'')))"

fun authorizeUser :: "payload option \<Rightarrow> response option" where
  "authorizeUser None =
     Some (Response 401 (Message ''Unauthorized: Must be logged in''))"
| "authorizeUser (Some u) =
     (if sub_role u = Some ''admin''
      then Some (Response 403 (Message ''Forbidden: Admins cannot make purchases''))
      else None)"

text \<open>
  The argument is \<^verbatim>\<open>parseInt(req.params.id)\<close>, \<open>None\<close> for \<^verbatim>\<open>NaN\<close>; the result is the
  response sent or \<^verbatim>\<open>req.itemId\<close>.
\<close>

fun validateIdParam :: "int option \<Rightarrow> response + int" where
  "validateIdParam None = Inl (Response 400 (Message ''Invalid item ID''))"
| "validateIdParam (Some i) =
     (if i \<le> 0 then Inl (Response 400 (Message ''Invalid item ID'')) else Inr i)"

subsection \<open>Purchase\<close>

text \<open>
  \<^verbatim>\<open>UPDATE inventory SET stock = stock - ? WHERE item_id = ? AND stock >= ?\<close> with the
  parameters \<open>[quantity, itemId, quantity]\<close>: one statement of the storage layer, which
  returns \<open>affectedRows\<close> and the table after it.
\<close>

definition decrement_stock :: "db \<Rightarrow> int \<Rightarrow> int \<Rightarrow> nat \<times> db" where
  "decrement_stock d itemId quantity =
     (case inventory d itemId of
        None \<Rightarrow> (0, d)
      | Some row \<Rightarrow>
          if stock row \<ge> quantity
          then (1, d\<lparr>inventory := (inventory d)(itemId \<mapsto> row\<lparr>stock := stock row - quantity\<rparr>)\<rparr>)
          else (0, d))"

text \<open>
  The \<^verbatim>\<open>try\<close> block of the handler. The statements of the transaction work on a copy
  of the committed database \<open>d\<close>; \<^verbatim>\<open>commit\<close> makes the copy the committed database,
  \<^verbatim>\<open>rollback\<close> drops it. \<open>None\<close> is an exception thrown inside the block. The second
  component of a result is the committed database when the block ends.
  Storage calls: 1 \<^verbatim>\<open>beginTransaction\<close>, 2 the \<^verbatim>\<open>UPDATE\<close>, 3 the \<^verbatim>\<open>rollback\<close> of the
  branch that did not apply, 4 its \<^verbatim>\<open>SELECT\<close>, 5 the \<^verbatim>\<open>INSERT\<close>, 6 \<^verbatim>\<open>commit\<close>.
\<close>

definition purchase_try :: "env \<Rightarrow> db \<Rightarrow> int \<Rightarrow> int \<Rightarrow> int option \<Rightarrow> (response \<times> db) option" where
  "purchase_try e d itemId quantity userId =
     (if fails e 1 then None
      else if fails e 2 then None
      else case decrement_stock d itemId quantity of (affectedRows, w) \<Rightarrow>
        if affectedRows = 0 then
          (if fails e 3 then None
           else if fails e 4 then None
           else case inventory d itemId of
                  None \<Rightarrow> Some (Response 404 (Message ''Item not found''), d)
                | Some row \<Rightarrow> Some (Response 400 (Message ''Insufficient stock''), d))
        else if fails e 5 then None
        else if fails e 6 then None
        else Some (Response 200 (PurchaseSuccessful quantity itemId),
                   w\<lparr>purchases := purchases w @
                      [\<lparr>p_item_id = itemId, p_quantity = quantity, p_user_id = userId\<rparr>]\<rparr>))"

text \<open>
  \<^verbatim>\<open>POST /purchase/:id\<close> with its middleware. \<open>quantity\<close> is the body's field, an
  integer or absent. Storage call 0 is \<^verbatim>\<open>pool.getConnection()\<close>, outside the
  \<^verbatim>\<open>try\<close>. The \<^verbatim>\<open>catch\<close> block rolls back and answers 500.
\<close>

definition purchase_item ::
  "env \<Rightarrow> db \<Rightarrow> payload option \<Rightarrow> int option \<Rightarrow> int option \<Rightarrow> response \<times> db" where
  "purchase_item e d reqUser idParam quantity =
     (case authorizeUser reqUser of
        Some r \<Rightarrow> (r, d)
      | None \<Rightarrow>
     (case validateIdParam idParam of
        Inl r \<Rightarrow> (r, d)
      | Inr itemId \<Rightarrow>
     (case quantity of
        None \<Rightarrow> (Response 400 (Message ''Invalid quantity''), d)
      | Some q \<Rightarrow>
          if q = 0 \<or> q \<le> 0 then (Response 400 (Message ''Invalid quantity''), d)
          else if fails e 0 then (NoResponse, d)
          else (case purchase_try e d itemId q (map_option sub_id reqUser) of
                  None \<Rightarrow> (Response 500 (Message ''Transaction failed''), d)
                | Some r \<Rightarrow> r))))"

text \<open>
  A sequence of purchase requests, each with its own environment, principal, id
  parameter and quantity, handled one after the other.
\<close>

fun purchase_all ::
  "db \<Rightarrow> (env \<times> payload option \<times> int option \<times> int option) list \<Rightarrow> db" where
  "purchase_all d [] = d"
| "purchase_all d ((e, reqUser, idParam, quantity) # rest) =
     purchase_all (snd (purchase_item e d reqUser idParam quantity)) rest"

subsection \<open>Inventory routes\<close>

text \<open>\<^verbatim>\<open>GET /:id\<close>. Storage call 0 is the \<^verbatim>\<open>SELECT\<close>.\<close>

definition get_item :: "env \<Rightarrow> db \<Rightarrow> int option \<Rightarrow> response \<times> db" where
  "get_item e d idParam =
     (case validateIdParam idParam of
        Inl r \<Rightarrow> (r, d)
      | Inr itemId \<Rightarrow>
          if fails e 0 then (Response 500 (Message ''Database error''), d)
          else (case inventory d itemId of
                  None \<Rightarrow> (Response 404 (Message ''Item not found''), d)
                | Some row \<Rightarrow> (Response 200 (Item itemId row), d)))"

text \<open>
  Modelled from the spec: the schema of the \<open>inventory\<close> table, which the repository
  does not contain. \<open>item_id\<close> and \<open>stock\<close> are integer columns, \<open>item_name\<close> is text,
  \<open>price\<close> is a number that may be \<^verbatim>\<open>NULL\<close> (the driver sends \<^verbatim>\<open>undefined\<close> as
  \<^verbatim>\<open>NULL\<close>). A parameter of another type is rejected by the storage layer.
\<close>

fun col_int :: "jsval \<Rightarrow> int option" where
  "col_int (JNum n) = Some n"
| "col_int v = None"

fun col_text :: "jsval \<Rightarrow> string option" where
  "col_text (JStr s) = Some s"
| "col_text v = None"

fun col_price :: "jsval \<Rightarrow> int option option" where
  "col_price JUndefined = Some None"
| "col_price JNull = Some None"
| "col_price (JNum n) = Some (Some n)"
| "col_price v = None"

definition inventory_row :: "jsval \<Rightarrow> jsval \<Rightarrow> jsval \<Rightarrow> jsval \<Rightarrow> (int \<times> item) option" where
  "inventory_row id' name stock' price' =
     (case col_int id' of None \<Rightarrow> None | Some i \<Rightarrow>
     (case col_text name of None \<Rightarrow> None | Some n \<Rightarrow>
     (case col_int stock' of None \<Rightarrow> None | Some s \<Rightarrow>
     (case col_price price' of None \<Rightarrow> None | Some p \<Rightarrow>
        Some (i, \<lparr>item_name = n, stock = s, price = p\<rparr>)))))"

datatype sql_error = ER_DUP_ENTRY | ER_OTHER

text \<open>
  \<^verbatim>\<open>INSERT INTO inventory (item_id, item_name, stock, price) VALUES (?, ?, ?, ?)\<close>,
  storage call 0 of \<^verbatim>\<open>POST /\<close>.
\<close>

definition insert_inventory ::
  "env \<Rightarrow> db \<Rightarrow> jsval \<Rightarrow> jsval \<Rightarrow> jsval \<Rightarrow> jsval \<Rightarrow> sql_error + db" where
  "insert_inventory e d id' name stock' price' =
     (if fails e 0 then Inl ER_OTHER
      else case inventory_row id' name stock' price' of
             None \<Rightarrow> Inl ER_OTHER
           | Some (i, row) \<Rightarrow>
               (case inventory d i of
                  Some old \<Rightarrow> Inl ER_DUP_ENTRY
                | None \<Rightarrow> Inr (d\<lparr>inventory := (inventory d)(i \<mapsto> row)\<rparr>)))"

text \<open>\<^verbatim>\<open>POST /\<close>: the arguments after the principal are the body's \<open>id, name, stock, price\<close>.\<close>

definition create_item ::
  "env \<Rightarrow> db \<Rightarrow> payload option \<Rightarrow> jsval \<Rightarrow> jsval \<Rightarrow> jsval \<Rightarrow> jsval \<Rightarrow> response \<times> db" where
  "create_item e d reqUser id' name stock' price' =
     (case authorizeAdmin reqUser of
        Some r \<Rightarrow> (r, d)
      | None \<Rightarrow>
          if falsy id' \<or> falsy name \<or> stock' = JUndefined
          then (Response 400 (Message ''Missing fields''), d)
          else (case insert_inventory e d id' name stock' price' of
                  Inr d' \<Rightarrow>
                    (Response 201 (Created id' name stock' price' ''Item added successfully''), d')
                | Inl ER_DUP_ENTRY \<Rightarrow> (Response 400 (Message ''ID already exists''), d)
                | Inl ER_OTHER \<Rightarrow> (Response 500 (Message ''Database error''), d)))"

text \<open>
  \<^verbatim>\<open>PUT /:id\<close>. The handler binds \<^verbatim>\<open>const { name, stock } = req.body\<close> and then
  evaluates the parameter array \<^verbatim>\<open>[name, stock, price, req.itemId]\<close> inside the
  \<^verbatim>\<open>try\<close>. \<open>put_bindings\<close> are the handler's bindings of body fields; no binding of
  the handler or of the module is named \<^verbatim>\<open>price\<close>, so reading it throws
  \<^verbatim>\<open>ReferenceError\<close>, which the \<^verbatim>\<open>catch\<close> answers. With a binding the statement
  \<^verbatim>\<open>UPDATE inventory SET item_name = ?, stock = ?, SET price = ? WHERE item_id = ?\<close>
  would reach the storage layer, whose parser rejects the second \<^verbatim>\<open>SET\<close>; the
  \<^verbatim>\<open>catch\<close> answers that too.
\<close>

definition put_bindings :: "jsval \<Rightarrow> jsval \<Rightarrow> (string \<times> jsval) list" where
  "put_bindings name stock' = [(''name'', name), (''stock'', stock')]"

definition update_item ::
  "env \<Rightarrow> db \<Rightarrow> payload option \<Rightarrow> int option \<Rightarrow> jsval \<Rightarrow> jsval \<Rightarrow> response \<times> db" where
  "update_item e d reqUser idParam name stock' =
     (case authorizeAdmin reqUser of
        Some r \<Rightarrow> (r, d)
      | None \<Rightarrow>
     (case validateIdParam idParam of
        Inl r \<Rightarrow> (r, d)
      | Inr itemId \<Rightarrow>
          (case map_of (put_bindings name stock') ''price'' of
             None \<Rightarrow> (Response 500 (Message ''Database error''), d)
           | Some price' \<Rightarrow> (Response 500 (Message ''Database error''), d))))"

text \<open>
  \<^verbatim>\<open>DELETE /:id\<close>. Storage call 0 is the \<^verbatim>\<open>SELECT\<close>, 1 the \<^verbatim>\<open>DELETE\<close>.
\<close>

definition delete_item :: "env \<Rightarrow> db \<Rightarrow> payload option \<Rightarrow> int option \<Rightarrow> response \<times> db" where
  "delete_item e d reqUser idParam =
     (case authorizeAdmin reqUser of
        Some r \<Rightarrow> (r, d)
      | None \<Rightarrow>
     (case validateIdParam idParam of
        Inl r \<Rightarrow> (r, d)
      | Inr itemId \<Rightarrow>
          if fails e 0 then (Response 500 (Message ''Database error''), d)
          else (case inventory d itemId of
                  None \<Rightarrow> (Response 404 (Message ''Item not found''), d)
                | Some row \<Rightarrow>
                    if fails e 1 then (Response 500 (Message ''Database error''), d)
                    else (Response 200 (Deleted ''Item deleted successfully'' itemId row),
                          d\<lparr>inventory := (inventory d)(itemId := None)\<rparr>))))"

subsection \<open>Routes of app.js\<close>

text \<open>
  \<^verbatim>\<open>bcrypt.compare(data, hash)\<close> with the body's \<open>password\<close> as \<open>data\<close> and the stored
  hash, a string: the library compares a string with the hash, and its promise rejects
  (\<open>None\<close>) for data that is not a string.
\<close>

fun compare :: "env \<Rightarrow> jsval \<Rightarrow> string \<Rightarrow> bool option" where
  "compare e (JStr s) hash = Some (bcrypt_compare e s hash)"
| "compare e v hash = None"

text \<open>
  \<^verbatim>\<open>POST /login\<close>. \<open>username\<close> and \<open>password\<close> are the body's fields; the handler
  tests only that they are truthy. Storage call 0 is the \<^verbatim>\<open>SELECT\<close> (\<^verbatim>\<open>LIMIT 1\<close>: the
  first match), 1 the \<^verbatim>\<open>INSERT\<close> of the refresh token. A rejection of
  \<^verbatim>\<open>bcrypt.compare\<close> is inside the \<^verbatim>\<open>try\<close>, so the \<^verbatim>\<open>catch\<close> answers it as it
  answers a rejecting storage call.
\<close>

definition login :: "env \<Rightarrow> db \<Rightarrow> jsval \<Rightarrow> jsval \<Rightarrow> response \<times> db" where
  "login e d username' password' =
     (if falsy username' \<or> falsy password'
      then (Response 400 (Message ''Username and password required''), d)
      else if fails e 0 then (Response 500 (Message ''Database error''), d)
      else (case find (\<lambda>u. username_matches e (username u) username') (users d) of
              None \<Rightarrow> (Response 401 (Message ''Invalid username or password''), d)
            | Some u \<Rightarrow>
               (case compare e password' (password u) of
                  None \<Rightarrow> (Response 500 (Message ''Database error''), d)
                | Some valid \<Rightarrow>
                    if valid then
                      (let accessToken =
                             jwt_sign \<lparr>sub_id = uid u, sub_role = Some (role u)\<rparr>
                               (ACCESS_TOKEN e) 3600 (now_ms e);
                           refreshToken =
                             jwt_sign \<lparr>sub_id = uid u, sub_role = None\<rparr>
                               (REFRESH_TOKEN e) 604800 (now_ms e);
                           expiresAt = now_ms e + 7 * 24 * 60 * 60 * 1000
                       in if fails e 1 then (Response 500 (Message ''Database error''), d)
                          else (Response 200 (Session accessToken refreshToken (role u)),
                                d\<lparr>refresh_tokens := refresh_tokens d @
                                   [\<lparr>user_id = uid u, token = refreshToken,
                                     expires_at = expiresAt\<rparr>]\<rparr>))
                    else (Response 401 (Message ''Invalid username or password''), d))))"

text \<open>
  The test \<^verbatim>\<open>!token\<close> on the body's \<open>token\<close> field, a string or absent: a signature is
  never the empty string.
\<close>

fun no_token :: "jwt option \<Rightarrow> bool" where
  "no_token None = True"
| "no_token (Some (Raw s)) = (s = [])"
| "no_token (Some (Signed p k iat ex)) = False"

text \<open>
  \<^verbatim>\<open>POST /refresh\<close>. Storage call 0 is the \<^verbatim>\<open>SELECT\<close> on \<open>refresh_tokens\<close>, 1 the one
  on \<open>users\<close>. Every exception of the \<^verbatim>\<open>try\<close> block, \<^verbatim>\<open>jwt.verify\<close>'s included, is
  answered 403.
\<close>

definition refresh :: "env \<Rightarrow> db \<Rightarrow> jwt option \<Rightarrow> response \<times> db" where
  "refresh e d token' =
     (if no_token token' then (Response 401 (Message ''No refresh token provided''), d)
      else case token' of
        None \<Rightarrow> (Response 401 (Message ''No refresh token provided''), d)
      | Some t \<Rightarrow>
     (case jwt_verify t (REFRESH_TOKEN e) (now_ms e) of
        None \<Rightarrow> (Response 403 (Message ''Invalid refresh token''), d)
      | Some pl \<Rightarrow>
          if fails e 0 then (Response 403 (Message ''Invalid refresh token''), d)
          else if filter (\<lambda>r. user_id r = sub_id pl \<and> token r = t) (refresh_tokens d) = []
          then (Response 403 (Message ''Invalid refresh token''), d)
          else if fails e 1 then (Response 403 (Message ''Invalid refresh token''), d)
          else (case filter (\<lambda>u. uid u = sub_id pl) (users d) of
                  [] \<Rightarrow> (Response 404 (Message ''User not found''), d)
                | u # others \<Rightarrow>
                    (Response 200
                       (AccessToken
                          (jwt_sign \<lparr>sub_id = uid u, sub_role = Some (role u)\<rparr>
                             (ACCESS_TOKEN e) 3600 (now_ms e))), d))))"

text \<open>
  \<^verbatim>\<open>POST /logout\<close>. Storage call 0 is
  \<^verbatim>\<open>DELETE FROM refresh_tokens WHERE token = ?\<close>.
\<close>

definition logout :: "env \<Rightarrow> db \<Rightarrow> jwt option \<Rightarrow> response \<times> db" where
  "logout e d token' =
     (if no_token token' then (Response 400 (Message ''No refresh token provided''), d)
      else case token' of
        None \<Rightarrow> (Response 400 (Message ''No refresh token provided''), d)
      | Some t \<Rightarrow>
          if fails e 0 then (Response 500 (Message ''Database error''), d)
          else (Response 200 (Message ''Logged out successfully''),
                d\<lparr>refresh_tokens := filter (\<lambda>r. token r \<noteq> t) (refresh_tokens d)\<rparr>))"

text \<open>
  The middleware \<^verbatim>\<open>verifyToken\<close>. \<open>auth\<close> is the \<^verbatim>\<open>authorization\<close> header: absent, or
  its pieces \<^verbatim>\<open>auth.split(" ")\<close>, a non-empty list (the empty header is \<open>[Raw []]\<close>).
  The result is the response sent, or \<^verbatim>\<open>req.user\<close> when \<^verbatim>\<open>next()\<close> is called. The
  database is an argument as it is of every handler: the module's \<^verbatim>\<open>pool\<close> is in
  scope.
\<close>

definition verifyToken :: "env \<Rightarrow> db \<Rightarrow> jwt list option \<Rightarrow> response + payload" where
  "verifyToken e d auth =
     (case auth of
        None \<Rightarrow> Inl (Response 401 (Message ''No token provided''))
      | Some parts \<Rightarrow>
          if parts = [Raw []] then Inl (Response 401 (Message ''No token provided''))
          else (case drop 1 parts of
                  [] \<Rightarrow> Inl (Response 403 (Message ''Invalid token''))
                | t # others \<Rightarrow>
                    (case jwt_verify t (ACCESS_TOKEN e) (now_ms e) of
                       None \<Rightarrow> Inl (Response 403 (Message ''Invalid token''))
                     | Some pl \<Rightarrow> Inr pl)))"

subsection \<open>Example states\<close>

text \<open>
  A shop with one item and two accounts, an environment in which no storage call
  rejects and a username matches the string equal to it, and the token payloads of the
  two accounts.
\<close>

definition env0 :: env where
  "env0 = \<lparr>ACCESS_TOKEN = ''access-key'', REFRESH_TOKEN = ''refresh-key'', now_ms = 5000,
           bcrypt_compare = (\<lambda>pw h. h = ''hash:'' @ pw),
           username_matches = (\<lambda>stored v. v = JStr stored), fails = (\<lambda>k. False)\<rparr>"

definition shop0 :: db where
  "shop0 = \<lparr>users = [\<lparr>uid = 1, username = ''alice'', password = ''hash:pw1'', role = ''user''\<rparr>,
                     \<lparr>uid = 2, username = ''root'', password = ''hash:pw2'', role = ''admin''\<rparr>],
            refresh_tokens = [],
            inventory = [1 \<mapsto> \<lparr>item_name = ''pen'', stock = 5, price = Some 3\<rparr>],
            purchases = []\<rparr>"

definition alice :: payload where
  "alice = \<lparr>sub_id = 1, sub_role = Some ''user''\<rparr>"

definition admin0 :: payload where
  "admin0 = \<lparr>sub_id = 2, sub_role = Some ''admin''\<rparr>"


text \<open>
  The tokens that a login of the first account issues at the clock of \<open>env0\<close>, and the
  shop after that login.
\<close>

definition refresh0 :: jwt where
  "refresh0 = Signed \<lparr>sub_id = 1, sub_role = None\<rparr> ''refresh-key'' 5 604805"

definition access0 :: jwt where
  "access0 = Signed \<lparr>sub_id = 1, sub_role = Some ''user''\<rparr> ''access-key'' 5 3605"

definition shop1 :: db where
  "shop1 = shop0\<lparr>refresh_tokens :=
     [\<lparr>user_id = 1, token = refresh0, expires_at = 604805000\<rparr>]\<rparr>"

section \<open>Stock is never driven below zero\<close>

lemma decrement_stock_applies:
  "inventory d i = Some row \<Longrightarrow>
   decrement_stock d i q =
     (if q \<le> stock row
      then (1, d\<lparr>inventory := (inventory d)(i \<mapsto> row\<lparr>stock := stock row - q\<rparr>)\<rparr>)
      else (0, d))"
  by (simp add: decrement_stock_def)

lemma decrement_stock_absent:
  "inventory d i = None \<Longrightarrow> decrement_stock d i q = (0, d)"
  by (simp add: decrement_stock_def)

lemma purchase_try_inventory:
  assumes "purchase_try e d i q u = Some (r, d')"
  shows "d' = d \<or> (\<exists>row. inventory d i = Some row \<and> q \<le> stock row \<and>
           inventory d' = (inventory d)(i \<mapsto> row\<lparr>stock := stock row - q\<rparr>))"
  using assms
  by (cases "inventory d i")
     (auto simp: purchase_try_def decrement_stock_def split: if_splits option.splits)

lemma purchase_item_inventory:
  "snd (purchase_item e d u ip qo) = d \<or>
   (\<exists>i q row. inventory d i = Some row \<and> q \<le> stock row \<and> 0 < q \<and>
      inventory (snd (purchase_item e d u ip qo)) = (inventory d)(i \<mapsto> row\<lparr>stock := stock row - q\<rparr>))"
proof (cases "authorizeUser u")
  case (Some r) then show ?thesis by (simp add: purchase_item_def)
next
  case None
  show ?thesis
  proof (cases "validateIdParam ip")
    case (Inl r) with None show ?thesis by (simp add: purchase_item_def)
  next
    case (Inr i)
    show ?thesis
    proof (cases qo)
      case N: None with None Inr show ?thesis by (simp add: purchase_item_def)
    next
      case (Some q)
      show ?thesis
      proof (cases "q \<le> 0 \<or> fails e 0")
        case True with None Inr Some show ?thesis by (auto simp add: purchase_item_def)
      next
        case False
        show ?thesis
        proof (cases "purchase_try e d i q (map_option sub_id u)")
          case N: None with None Inr Some False show ?thesis by (auto simp add: purchase_item_def)
        next
          case S: (Some rd)
          obtain r d' where rd: "rd = (r, d')" by (cases rd)
          have snd_eq: "snd (purchase_item e d u ip qo) = d'"
            using None Inr Some False S rd by (auto simp add: purchase_item_def)
          from False have "0 < q" by simp
          with purchase_try_inventory[OF S[unfolded rd]] show ?thesis
            unfolding snd_eq by blast
        qed
      qed
    qed
  qed
qed

lemma purchase_item_stock:
  assumes "inventory d i = Some row" "0 \<le> stock row"
  shows "\<exists>row'. inventory (snd (purchase_item e d u ip qo)) i = Some row' \<and>
           0 \<le> stock row' \<and> stock row' \<le> stock row"
  using purchase_item_inventory[of e d u ip qo] assms
  by (auto simp: fun_upd_def)

lemma purchase_all_stock:
  "inventory d i = Some row \<Longrightarrow> 0 \<le> stock row \<Longrightarrow>
   \<exists>row'. inventory (purchase_all d calls) i = Some row' \<and> 0 \<le> stock row' \<and> stock row' \<le> stock row"
proof (induction calls arbitrary: d row)
  case Nil then show ?case by simp
next
  case (Cons c calls)
  obtain e u ip qo where c: "c = (e, u, ip, qo)" by (cases c)
  from purchase_item_stock[OF Cons.prems, of e u ip qo]
  obtain r1 where r1: "inventory (snd (purchase_item e d u ip qo)) i = Some r1" "0 \<le> stock r1" "stock r1 \<le> stock row"
    by blast
  from Cons.IH[OF r1(1) r1(2)] r1(3) c show ?case by fastforce
qed



text \<open>
  C1. For an item in the inventory and a quantity \<open>q\<close>, the conditional update reports
  one affected row exactly when the item's stock is at least \<open>q\<close>, and then the stock
  is lowered by \<open>q\<close>; otherwise the table is unchanged. A purchase request changes the
  committed inventory only into the result of that one statement. Hence after any
  sequence of purchase requests, a stock that was not negative is still not negative
  (and is not larger).
\<close>

theorem stock_never_negative:
  assumes "inventory d i = Some row"
  shows "(fst (decrement_stock d i q) = 1 \<longleftrightarrow> q \<le> stock row) \<and>
    snd (decrement_stock d i q) =
      (if q \<le> stock row
       then d\<lparr>inventory := (inventory d)(i \<mapsto> row\<lparr>stock := stock row - q\<rparr>)\<rparr>
       else d) \<and>
    (snd (purchase_item e d u ip qo) = d \<or>
     (\<exists>j n. fst (decrement_stock d j n) = 1 \<and>
        inventory (snd (purchase_item e d u ip qo)) = inventory (snd (decrement_stock d j n)))) \<and>
    (0 \<le> stock row \<longrightarrow>
       (\<exists>row'. inventory (purchase_all d calls) i = Some row' \<and>
          0 \<le> stock row' \<and> stock row' \<le> stock row))"
proof (intro conjI impI)
  show "(fst (decrement_stock d i q) = 1) = (q \<le> stock row)"
    using assms by (simp add: decrement_stock_applies)
  show "snd (decrement_stock d i q) =
      (if q \<le> stock row
       then d\<lparr>inventory := (inventory d)(i \<mapsto> row\<lparr>stock := stock row - q\<rparr>)\<rparr>
       else d)"
    using assms by (simp add: decrement_stock_applies)
  show "snd (purchase_item e d u ip qo) = d \<or>
     (\<exists>j n. fst (decrement_stock d j n) = 1 \<and>
        inventory (snd (purchase_item e d u ip qo)) = inventory (snd (decrement_stock d j n)))"
    using purchase_item_inventory[of e d u ip qo]
  proof
    assume "snd (purchase_item e d u ip qo) = d" then show ?thesis ..
  next
    assume "\<exists>i q row. inventory d i = Some row \<and> q \<le> stock row \<and> 0 < q \<and>
      inventory (snd (purchase_item e d u ip qo)) = (inventory d)(i \<mapsto> row\<lparr>stock := stock row - q\<rparr>)"
    then obtain j n r where "inventory d j = Some r" "n \<le> stock r"
      "inventory (snd (purchase_item e d u ip qo)) = (inventory d)(j \<mapsto> r\<lparr>stock := stock r - n\<rparr>)"
      by blast
    then have "fst (decrement_stock d j n) = 1 \<and>
        inventory (snd (purchase_item e d u ip qo)) = inventory (snd (decrement_stock d j n))"
      by (simp add: decrement_stock_applies)
    then show ?thesis by blast
  qed
next
  assume "0 \<le> stock row"
  with assms show "\<exists>row'. inventory (purchase_all d calls) i = Some row' \<and>
          0 \<le> stock row' \<and> stock row' \<le> stock row"
    by (rule purchase_all_stock)
qed

theorem stock_never_negative_witness:
  "fst (decrement_stock shop0 1 3) = 1 \<and> fst (decrement_stock shop0 1 6) = 0 \<and>
   inventory
     (purchase_all shop0
        [(env0, Some alice, Some 1, Some 3), (env0, Some alice, Some 1, Some 3),
         (env0, Some alice, Some 1, Some 2)]) 1 =
     Some \<lparr>item_name = ''pen'', stock = 0, price = Some 3\<rparr>"
  using stock_never_negative
          [where d = shop0 and i = 1 and row = "\<lparr>item_name = ''pen'', stock = 5, price = Some 3\<rparr>"
             and q = 3 and e = env0 and u = "Some alice" and ip = "Some 1" and qo = "Some 3"
             and calls = "[(env0, Some alice, Some 1, Some 3), (env0, Some alice, Some 1, Some 3),
                           (env0, Some alice, Some 1, Some 2)]"]
        stock_never_negative
          [where d = shop0 and i = 1 and row = "\<lparr>item_name = ''pen'', stock = 5, price = Some 3\<rparr>"
             and q = 6]
  by (simp add: env0_def shop0_def alice_def purchase_item_def purchase_try_def decrement_stock_def)

section \<open>A purchase is all or nothing\<close>

lemma purchase_item_not_200:
  assumes "\<forall>b. fst (purchase_item e d u ip qo) \<noteq> Response 200 b"
  shows "snd (purchase_item e d u ip qo) = d"
  using assms
  by (auto simp: purchase_item_def purchase_try_def
           split: option.splits sum.splits if_splits prod.splits)

lemma purchase_item_fault_after_decrement:
  assumes "authorizeUser u = None" "validateIdParam ip = Inr i" "0 < q"
    and "inventory d i = Some row" "q \<le> stock row"
    and "\<not> fails e 0" "\<not> fails e 1" "\<not> fails e 2" "fails e 5 \<or> fails e 6"
  shows "purchase_item e d u ip (Some q) = (Response 500 (Message ''Transaction failed''), d)"
  using assms
  by (auto simp: purchase_item_def purchase_try_def decrement_stock_def)


text \<open>
  C2. A purchase request that is not answered 200 leaves the committed database as it
  was. In particular, when the conditional update has applied inside the transaction
  and the \<^verbatim>\<open>INSERT\<close> of the purchase record or the \<^verbatim>\<open>commit\<close> then rejects, the
  request is answered 500 and stock and purchase history are those before the call.
\<close>

theorem purchase_all_or_nothing:
  "((\<forall>b. fst (purchase_item e d u ip qo) \<noteq> Response 200 b) \<longrightarrow>
      snd (purchase_item e d u ip qo) = d) \<and>
   (authorizeUser u = None \<and> validateIdParam ip = Inr i \<and> 0 < q \<and>
    inventory d i = Some row \<and> q \<le> stock row \<and>
    \<not> fails e 0 \<and> \<not> fails e 1 \<and> \<not> fails e 2 \<and> (fails e 5 \<or> fails e 6) \<longrightarrow>
      decrement_stock d i q =
        (1, d\<lparr>inventory := (inventory d)(i \<mapsto> row\<lparr>stock := stock row - q\<rparr>)\<rparr>) \<and>
      purchase_item e d u ip (Some q) = (Response 500 (Message ''Transaction failed''), d))"
proof (intro conjI impI)
  assume "\<forall>b. fst (purchase_item e d u ip qo) \<noteq> Response 200 b"
  then show "snd (purchase_item e d u ip qo) = d" by (rule purchase_item_not_200)
next
  assume h: "authorizeUser u = None \<and> validateIdParam ip = Inr i \<and> 0 < q \<and>
    inventory d i = Some row \<and> q \<le> stock row \<and>
    \<not> fails e 0 \<and> \<not> fails e 1 \<and> \<not> fails e 2 \<and> (fails e 5 \<or> fails e 6)"
  then show "decrement_stock d i q =
        (1, d\<lparr>inventory := (inventory d)(i \<mapsto> row\<lparr>stock := stock row - q\<rparr>)\<rparr>)"
    by (simp add: decrement_stock_def)
  from h show "purchase_item e d u ip (Some q) = (Response 500 (Message ''Transaction failed''), d)"
    by (intro purchase_item_fault_after_decrement) auto
qed

theorem purchase_all_or_nothing_witness:
  "fst (decrement_stock shop0 1 3) = 1 \<and>
   inventory (snd (decrement_stock shop0 1 3)) 1 = Some \<lparr>item_name = ''pen'', stock = 2, price = Some 3\<rparr> \<and>
   purchase_item (env0\<lparr>fails := (\<lambda>k. k = 5)\<rparr>) shop0 (Some alice) (Some 1) (Some 3) =
     (Response 500 (Message ''Transaction failed''), shop0) \<and>
   purchase_item (env0\<lparr>fails := (\<lambda>k. k = 6)\<rparr>) shop0 (Some alice) (Some 1) (Some 3) =
     (Response 500 (Message ''Transaction failed''), shop0)"
  using purchase_all_or_nothing [of "env0\<lparr>fails := (\<lambda>k. k = 5)\<rparr>" shop0 "Some alice" "Some 1" "Some 3"
           1 3 "\<lparr>item_name = ''pen'', stock = 5, price = Some 3\<rparr>"]
        purchase_all_or_nothing [of "env0\<lparr>fails := (\<lambda>k. k = 6)\<rparr>" shop0 "Some alice" "Some 1" "Some 3"
           1 3 "\<lparr>item_name = ''pen'', stock = 5, price = Some 3\<rparr>"]
  by (simp add: env0_def shop0_def alice_def)


section \<open>Outcomes of a purchase\<close>

text \<open>
  C3. For an authorised principal, a valid id parameter and a storage layer that does
  not reject: a quantity that is absent or at most 0 is answered 400 (invalid quantity);
  a positive quantity is answered 404 when the item does not exist and 400
  (insufficient stock) when its stock is below the quantity, in all these cases with
  the database unchanged; and when the stock suffices the answer is 200, the stock is
  lowered by exactly the quantity and exactly one purchase record is appended.
\<close>

theorem purchase_outcomes:
  assumes "authorizeUser u = None" and "validateIdParam ip = Inr i"
    and "\<forall>k. \<not> fails e k"
  shows "purchase_item e d u ip None = (Response 400 (Message ''Invalid quantity''), d) \<and>
    (q \<le> 0 \<longrightarrow>
       purchase_item e d u ip (Some q) = (Response 400 (Message ''Invalid quantity''), d)) \<and>
    (0 < q \<and> inventory d i = None \<longrightarrow>
       purchase_item e d u ip (Some q) = (Response 404 (Message ''Item not found''), d)) \<and>
    (0 < q \<and> inventory d i = Some row \<and> stock row < q \<longrightarrow>
       purchase_item e d u ip (Some q) = (Response 400 (Message ''Insufficient stock''), d)) \<and>
    (0 < q \<and> inventory d i = Some row \<and> q \<le> stock row \<longrightarrow>
       purchase_item e d u ip (Some q) =
         (Response 200 (PurchaseSuccessful q i),
          d\<lparr>inventory := (inventory d)(i \<mapsto> row\<lparr>stock := stock row - q\<rparr>),
            purchases := purchases d @
              [\<lparr>p_item_id = i, p_quantity = q, p_user_id = map_option sub_id u\<rparr>]\<rparr>))"
  using assms
  by (auto simp: purchase_item_def purchase_try_def decrement_stock_def)

theorem purchase_outcomes_witness:
  "purchase_item env0 shop0 (Some alice) (Some 1) (Some 0) =
     (Response 400 (Message ''Invalid quantity''), shop0) \<and>
   purchase_item env0 shop0 (Some alice) (Some 2) (Some 3) =
     (Response 404 (Message ''Item not found''), shop0) \<and>
   purchase_item env0 shop0 (Some alice) (Some 1) (Some 9) =
     (Response 400 (Message ''Insufficient stock''), shop0) \<and>
   purchase_item env0 shop0 (Some alice) (Some 1) (Some 3) =
     (Response 200 (PurchaseSuccessful 3 1),
      shop0\<lparr>inventory := [1 \<mapsto> \<lparr>item_name = ''pen'', stock = 2, price = Some 3\<rparr>],
            purchases := [\<lparr>p_item_id = 1, p_quantity = 3, p_user_id = Some 1\<rparr>]\<rparr>)"
  using purchase_outcomes [of "Some alice" "Some 1" 1 env0 shop0 0]
        purchase_outcomes [of "Some alice" "Some 2" 2 env0 shop0 3]
        purchase_outcomes [of "Some alice" "Some 1" 1 env0 shop0 9 "\<lparr>item_name = ''pen'', stock = 5, price = Some 3\<rparr>"]
        purchase_outcomes [of "Some alice" "Some 1" 1 env0 shop0 3 "\<lparr>item_name = ''pen'', stock = 5, price = Some 3\<rparr>"]
  by (simp add: env0_def shop0_def alice_def)

section \<open>Updating an item\<close>

text \<open>
  C4. The claim is that \<^verbatim>\<open>PUT /:id\<close> answers 404 for an id that is not in the
  inventory and otherwise replaces name, stock and price and returns the new row. The
  handler does neither: for an administrator and a valid id it answers 500 and leaves
  the inventory as it was, whether the item exists (id 1 of \<open>shop0\<close>) or not (id 2).
\<close>

theorem update_item_always_500:
  "update_item env0 shop0 (Some admin0) (Some 1) (JStr ''pencil'') (JNum 9) =
     (Response 500 (Message ''Database error''), shop0) \<and>
   update_item env0 shop0 (Some admin0) (Some 2) (JStr ''pencil'') (JNum 9) =
     (Response 500 (Message ''Database error''), shop0) \<and>
   inventory shop0 1 = Some \<lparr>item_name = ''pen'', stock = 5, price = Some 3\<rparr> \<and>
   inventory shop0 2 = None"
  by (simp add: update_item_def put_bindings_def env0_def shop0_def admin0_def)

section \<open>Refreshing an access token\<close>

lemma jwt_verify_Some_token: "jwt_verify t key now = Some pl \<Longrightarrow> no_token (Some t) = False"
  by (cases t) auto

lemma logout_removes:
  "\<not> fails e 0 \<Longrightarrow> no_token (Some t) = False \<Longrightarrow>
   logout e d (Some t) =
     (Response 200 (Message ''Logged out successfully''),
      d\<lparr>refresh_tokens := filter (\<lambda>r. token r \<noteq> t) (refresh_tokens d)\<rparr>)"
  by (simp add: logout_def)

lemma filter_after_delete:
  "filter (\<lambda>r. P r \<and> token r = t) (filter (\<lambda>r. token r \<noteq> t) rs) = []"
  by (induction rs) auto

text \<open>
  C5. For a refresh token whose signature and expiry verify, and a storage layer that
  does not reject: the answer is 403 when no stored row has the payload's user id and
  this token, in particular after a logout with this token; 404 when such a row exists
  and no user has that id; and otherwise 200 with a new access token for that user and
  nothing else. In every case the database, the stored refresh tokens included, is
  unchanged.
\<close>

theorem refresh_outcomes:
  assumes "jwt_verify t (REFRESH_TOKEN e) (now_ms e) = Some pl"
    and "\<not> fails e 0" and "\<not> fails e 1"
  shows
   "(filter (\<lambda>r. user_id r = sub_id pl \<and> token r = t) (refresh_tokens d) = [] \<longrightarrow>
       refresh e d (Some t) = (Response 403 (Message ''Invalid refresh token''), d)) \<and>
    (\<not> fails e' 0 \<longrightarrow>
       refresh e (snd (logout e' d (Some t))) (Some t) =
         (Response 403 (Message ''Invalid refresh token''), snd (logout e' d (Some t)))) \<and>
    (filter (\<lambda>r. user_id r = sub_id pl \<and> token r = t) (refresh_tokens d) \<noteq> [] \<and>
     filter (\<lambda>u. uid u = sub_id pl) (users d) = [] \<longrightarrow>
       refresh e d (Some t) = (Response 404 (Message ''User not found''), d)) \<and>
    (filter (\<lambda>r. user_id r = sub_id pl \<and> token r = t) (refresh_tokens d) \<noteq> [] \<and>
     filter (\<lambda>u. uid u = sub_id pl) (users d) = u # others \<longrightarrow>
       refresh e d (Some t) =
         (Response 200
            (AccessToken (jwt_sign \<lparr>sub_id = uid u, sub_role = Some (role u)\<rparr>
                            (ACCESS_TOKEN e) 3600 (now_ms e))), d))"
proof -
  have nt: "no_token (Some t) = False"
    using assms(1) by (rule jwt_verify_Some_token)
  have a: "filter (\<lambda>r. user_id r = sub_id pl \<and> token r = t) (refresh_tokens d') = [] \<Longrightarrow>
       refresh e d' (Some t) = (Response 403 (Message ''Invalid refresh token''), d')" for d'
    using assms nt by (simp add: refresh_def)
  have b: "\<not> fails e' 0 \<Longrightarrow> refresh e (snd (logout e' d (Some t))) (Some t) =
         (Response 403 (Message ''Invalid refresh token''), snd (logout e' d (Some t)))"
    by (rule a) (simp add: logout_removes nt filter_after_delete)
  have c: "filter (\<lambda>r. user_id r = sub_id pl \<and> token r = t) (refresh_tokens d) \<noteq> [] \<Longrightarrow>
     filter (\<lambda>u. uid u = sub_id pl) (users d) = [] \<Longrightarrow>
       refresh e d (Some t) = (Response 404 (Message ''User not found''), d)"
    using assms nt by (simp add: refresh_def)
  have dd: "filter (\<lambda>r. user_id r = sub_id pl \<and> token r = t) (refresh_tokens d) \<noteq> [] \<Longrightarrow>
     filter (\<lambda>u. uid u = sub_id pl) (users d) = u # others \<Longrightarrow>
       refresh e d (Some t) =
         (Response 200
            (AccessToken (jwt_sign \<lparr>sub_id = uid u, sub_role = Some (role u)\<rparr>
                            (ACCESS_TOKEN e) 3600 (now_ms e))), d)"
    using assms nt by (simp add: refresh_def)
  from a b c dd show ?thesis by blast
qed

lemma login_example:
  "login env0 shop0 (JStr ''alice'') (JStr ''pw1'') =
     (Response 200 (Session access0 refresh0 ''user''), shop1)"
  by (simp add: login_def env0_def shop0_def shop1_def access0_def refresh0_def jwt_sign_def Let_def)

theorem refresh_outcomes_witness:
  "refresh env0 shop0 (Some refresh0) = (Response 403 (Message ''Invalid refresh token''), shop0) \<and>
   refresh env0 (snd (logout env0 shop1 (Some refresh0))) (Some refresh0) =
     (Response 403 (Message ''Invalid refresh token''), shop0) \<and>
   refresh env0 (shop1\<lparr>users := []\<rparr>) (Some refresh0) =
     (Response 404 (Message ''User not found''), shop1\<lparr>users := []\<rparr>) \<and>
   refresh env0 shop1 (Some refresh0) = (Response 200 (AccessToken access0), shop1)"
  using refresh_outcomes [of refresh0 env0 "\<lparr>sub_id = 1, sub_role = None\<rparr>" shop0 env0]
        refresh_outcomes [of refresh0 env0 "\<lparr>sub_id = 1, sub_role = None\<rparr>" shop1 env0]
        refresh_outcomes [of refresh0 env0 "\<lparr>sub_id = 1, sub_role = None\<rparr>" "shop1\<lparr>users := []\<rparr>" env0]
        refresh_outcomes [of refresh0 env0 "\<lparr>sub_id = 1, sub_role = None\<rparr>" shop1 env0
          "\<lparr>uid = 1, username = ''alice'', password = ''hash:pw1'', role = ''user''\<rparr>" "[]"]
  by (simp add: env0_def shop0_def shop1_def refresh0_def access0_def jwt_sign_def logout_def)

section \<open>Verification of access tokens\<close>

lemma login_session:
  assumes "login e0 d un pw = (Response 200 (Session a r rl), d1)"
  shows "\<exists>u::user. a = jwt_sign \<lparr>sub_id = uid u, sub_role = Some rl\<rparr> (ACCESS_TOKEN e0) 3600 (now_ms e0) \<and>
             r = jwt_sign \<lparr>sub_id = uid u, sub_role = None\<rparr> (REFRESH_TOKEN e0) 604800 (now_ms e0)"
  using assms
  by (auto simp: login_def Let_def split: option.splits if_splits)

text \<open>
  C6. The result of \<^verbatim>\<open>verifyToken\<close> is the same for any two databases and any two
  environments with the same access key and clock: it is a function of the header, the
  key and the time. In particular an access token issued by a login still verifies, with the role it was
  issued for, while the clock is before its expiry, after a logout has deleted every
  stored row of the refresh token of that login.
\<close>

theorem verifyToken_stateless:
  "(ACCESS_TOKEN e2 = ACCESS_TOKEN e \<and> now_ms e2 = now_ms e \<longrightarrow>
      verifyToken e d1 auth = verifyToken e2 d2 auth) \<and>
   (login e0 d un pw = (Response 200 (Session a r rl), d') \<and>
    ACCESS_TOKEN e = ACCESS_TOKEN e0 \<and> now_ms e div 1000 < now_ms e0 div 1000 + 3600 \<and>
    \<not> fails e1 0 \<longrightarrow>
      filter (\<lambda>x. token x = r) (refresh_tokens (snd (logout e1 d' (Some r)))) = [] \<and>
      (\<exists>pl. verifyToken e (snd (logout e1 d' (Some r))) (Some [Raw ''Bearer'', a]) = Inr pl \<and>
            sub_role pl = Some rl))"
proof (intro conjI impI)
  assume "ACCESS_TOKEN e2 = ACCESS_TOKEN e \<and> now_ms e2 = now_ms e"
  then show "verifyToken e d1 auth = verifyToken e2 d2 auth"
    by (auto simp: verifyToken_def split: option.splits list.splits)
next
  assume h: "login e0 d un pw = (Response 200 (Session a r rl), d') \<and>
    ACCESS_TOKEN e = ACCESS_TOKEN e0 \<and> now_ms e div 1000 < now_ms e0 div 1000 + 3600 \<and>
    \<not> fails e1 0"
  then have lg: "login e0 d un pw = (Response 200 (Session a r rl), d')" by simp
  from login_session[OF lg] obtain u :: user where
    a: "a = jwt_sign \<lparr>sub_id = uid u, sub_role = Some rl\<rparr> (ACCESS_TOKEN e0) 3600 (now_ms e0)" and
    r: "r = jwt_sign \<lparr>sub_id = uid u, sub_role = None\<rparr> (REFRESH_TOKEN e0) 604800 (now_ms e0)"
    by blast
  from r h show "filter (\<lambda>x. token x = r) (refresh_tokens (snd (logout e1 d' (Some r)))) = []"
    by (simp add: logout_def jwt_sign_def)
  from a h have "verifyToken e (snd (logout e1 d' (Some r))) (Some [Raw ''Bearer'', a]) =
      Inr \<lparr>sub_id = uid u, sub_role = Some rl\<rparr>"
    by (simp add: verifyToken_def jwt_sign_def)
  then show "\<exists>pl. verifyToken e (snd (logout e1 d' (Some r))) (Some [Raw ''Bearer'', a]) = Inr pl \<and>
            sub_role pl = Some rl"
    by simp
qed

theorem verifyToken_stateless_witness:
  "login env0 shop0 (JStr ''alice'') (JStr ''pw1'') =
     (Response 200 (Session access0 refresh0 ''user''), shop1) \<and>
   logout env0 shop1 (Some refresh0) = (Response 200 (Message ''Logged out successfully''), shop0) \<and>
   verifyToken (env0\<lparr>now_ms := 3604999\<rparr>) shop0 (Some [Raw ''Bearer'', access0]) = Inr alice \<and>
   verifyToken (env0\<lparr>now_ms := 3604999\<rparr>) shop1 (Some [Raw ''Bearer'', access0]) = Inr alice"
  using verifyToken_stateless
          [where e = "env0\<lparr>now_ms := 3604999\<rparr>" and ?e2.0 = "env0\<lparr>now_ms := 3604999\<rparr>"
             and ?d1.0 = shop0 and ?d2.0 = shop1 and auth = "Some [Raw ''Bearer'', access0]"
             and ?e0.0 = env0 and d = shop0 and un = "JStr ''alice''" and pw = "JStr ''pw1''"
             and a = access0 and r = refresh0 and rl = "''user''" and d' = shop1 and ?e1.0 = env0]
        login_example
  by (simp add: env0_def shop0_def shop1_def refresh0_def access0_def alice_def logout_def verifyToken_def)

section \<open>Failing logins\<close>

text \<open>
  With a password that is a string, a login with a username that no account matches and
  a login with the username of an account whose hash does not match are answered by the
  same response, 401 with the message \<open>Invalid username or password\<close> when the lookup
  does not reject, and neither changes the database.
\<close>

lemma login_string_password_failures:
  assumes "find (\<lambda>u. username_matches e (username u) un) (users d1) = None"
    and "find (\<lambda>u. username_matches e (username u) un) (users d2) = Some u"
    and "\<not> bcrypt_compare e pw (password u)"
  shows "fst (login e d1 un (JStr pw)) = fst (login e d2 un (JStr pw)) \<and>
    snd (login e d1 un (JStr pw)) = d1 \<and> snd (login e d2 un (JStr pw)) = d2 \<and>
    (\<not> falsy un \<and> pw \<noteq> [] \<and> \<not> fails e 0 \<longrightarrow>
       login e d1 un (JStr pw) =
         (Response 401 (Message ''Invalid username or password''), d1) \<and>
       login e d2 un (JStr pw) =
         (Response 401 (Message ''Invalid username or password''), d2))"
  using assms by (simp add: login_def)

text \<open>
  C7. The claim is that a failing login is answered alike whether the username is
  unknown or the password is wrong. The handler answers the unknown username before it
  looks at the password, and hands a truthy password that is not a string to
  \<^verbatim>\<open>bcrypt.compare\<close>, whose rejection the \<^verbatim>\<open>catch\<close> answers 500. For the body
  \<^verbatim>\<open>{ username: "alice", password: 1 }\<close> the answer is 500 \<open>Database error\<close> where the
  account exists (\<open>shop0\<close>) and 401 where it does not; for the wrong password
  \<^verbatim>\<open>"guess"\<close> both are answered 401.
\<close>

theorem login_nonstring_password_distinguishes:
  "login env0 shop0 (JStr ''alice'') (JNum 1) =
     (Response 500 (Message ''Database error''), shop0) \<and>
   login env0 (shop0\<lparr>users := []\<rparr>) (JStr ''alice'') (JNum 1) =
     (Response 401 (Message ''Invalid username or password''), shop0\<lparr>users := []\<rparr>) \<and>
   login env0 shop0 (JStr ''alice'') (JStr ''guess'') =
     (Response 401 (Message ''Invalid username or password''), shop0) \<and>
   login env0 (shop0\<lparr>users := []\<rparr>) (JStr ''alice'') (JStr ''guess'') =
     (Response 401 (Message ''Invalid username or password''), shop0\<lparr>users := []\<rparr>)"
  by (simp add: login_def env0_def shop0_def)

section \<open>Logout\<close>

text \<open>
  C8. For a non-empty token and a storage layer that does not reject, logout answers 200
  and deletes every stored row of the token; when no row has the token the database is
  unchanged and the answer is still 200; and a second logout with the same token gives
  the same response and the same database as the first.
\<close>

theorem logout_idempotent:
  assumes "no_token (Some t) = False" and "\<not> fails e 0" and "\<not> fails e' 0"
  shows "logout e d (Some t) =
      (Response 200 (Message ''Logged out successfully''),
       d\<lparr>refresh_tokens := filter (\<lambda>r. token r \<noteq> t) (refresh_tokens d)\<rparr>) \<and>
    filter (\<lambda>r. token r = t) (refresh_tokens (snd (logout e d (Some t)))) = [] \<and>
    (filter (\<lambda>r. token r = t) (refresh_tokens d) = [] \<longrightarrow>
       logout e d (Some t) = (Response 200 (Message ''Logged out successfully''), d)) \<and>
    logout e' (snd (logout e d (Some t))) (Some t) = logout e d (Some t)"
proof -
  have keep: "filter (\<lambda>r. token r = t) rs = [] \<Longrightarrow> filter (\<lambda>r. token r \<noteq> t) rs = rs" for rs :: "rtoken list"
    by (induction rs) (auto split: if_splits)
  have gone: "filter (\<lambda>r. token r = t) (filter (\<lambda>r. token r \<noteq> t) rs) = []" for rs :: "rtoken list"
    by (induction rs) auto
  have 1: "logout e d (Some t) =
      (Response 200 (Message ''Logged out successfully''),
       d\<lparr>refresh_tokens := filter (\<lambda>r. token r \<noteq> t) (refresh_tokens d)\<rparr>)"
    using assms by (simp add: logout_removes)
  have 2: "filter (\<lambda>r. token r = t) (refresh_tokens (snd (logout e d (Some t)))) = []"
    by (simp add: 1 gone)
  have 3: "filter (\<lambda>r. token r = t) (refresh_tokens d) = [] \<Longrightarrow>
       logout e d (Some t) = (Response 200 (Message ''Logged out successfully''), d)"
    by (simp add: 1 keep)
  have 4: "logout e' (snd (logout e d (Some t))) (Some t) = logout e d (Some t)"
    using assms by (simp add: logout_removes)
  from 1 2 3 4 show ?thesis by blast
qed

theorem logout_idempotent_witness:
  "logout env0 shop1 (Some refresh0) = (Response 200 (Message ''Logged out successfully''), shop0) \<and>
   logout env0 shop0 (Some refresh0) = (Response 200 (Message ''Logged out successfully''), shop0) \<and>
   logout env0 (snd (logout env0 shop1 (Some refresh0))) (Some refresh0) =
     logout env0 shop1 (Some refresh0)"
  using logout_idempotent [of refresh0 env0 env0 shop1] logout_idempotent [of refresh0 env0 env0 shop0]
  by (simp add: env0_def shop0_def shop1_def refresh0_def)

section \<open>Validation of a new item\<close>

lemma create_item_missing_iff:
  assumes "authorizeAdmin u = None"
  shows "(create_item e d u i n s p = (Response 400 (Message ''Missing fields''), d)) =
         (falsy i \<or> falsy n \<or> s = JUndefined)"
  using assms
  by (auto simp: create_item_def split: sum.splits sql_error.splits)

lemma create_item_created:
  assumes "authorizeAdmin u = None" "\<not> fails e 0"
    and "\<not> falsy i" "\<not> falsy n" "s \<noteq> JUndefined"
    and "inventory_row i n s p = Some (k, row)" "inventory d k = None"
  shows "create_item e d u i n s p =
     (Response 201 (Created i n s p ''Item added successfully''),
      d\<lparr>inventory := (inventory d)(k \<mapsto> row)\<rparr>)"
  using assms by (simp add: create_item_def insert_inventory_def)

text \<open>
  C10. For an administrator, \<^verbatim>\<open>POST /\<close> answers 400 with the message
  \<open>Missing fields\<close> exactly when the id is falsy, the name is falsy or the stock is
  \<^verbatim>\<open>undefined\<close>; the price has no part in the test. The number 0, the empty string
  and an absent field are falsy. An item with stock 0, a non-zero id that is not taken
  and a non-empty name is created, also when the price is absent.
\<close>

theorem create_validation:
  assumes "authorizeAdmin u = None"
  shows
   "((create_item e d u i n s p = (Response 400 (Message ''Missing fields''), d)) \<longleftrightarrow>
       (falsy i \<or> falsy n \<or> s = JUndefined)) \<and>
    falsy (JNum 0) \<and> falsy (JStr []) \<and> falsy JUndefined \<and> \<not> falsy (JNum (- 1)) \<and>
    (\<not> fails e 0 \<and> k \<noteq> 0 \<and> nm \<noteq> [] \<and> inventory d k = None \<and> col_price p = Some pr \<longrightarrow>
       create_item e d u (JNum k) (JStr nm) (JNum 0) p =
         (Response 201 (Created (JNum k) (JStr nm) (JNum 0) p ''Item added successfully''),
          d\<lparr>inventory := (inventory d)(k \<mapsto> \<lparr>item_name = nm, stock = 0, price = pr\<rparr>)\<rparr>)) \<and>
    col_price JUndefined = Some None"
proof (intro conjI impI)
  show "(create_item e d u i n s p = (Response 400 (Message ''Missing fields''), d)) =
        (falsy i \<or> falsy n \<or> s = JUndefined)"
    using assms by (rule create_item_missing_iff)
next
  assume h: "\<not> fails e 0 \<and> k \<noteq> 0 \<and> nm \<noteq> [] \<and> inventory d k = None \<and> col_price p = Some pr"
  show "create_item e d u (JNum k) (JStr nm) (JNum 0) p =
         (Response 201 (Created (JNum k) (JStr nm) (JNum 0) p ''Item added successfully''),
          d\<lparr>inventory := (inventory d)(k \<mapsto> \<lparr>item_name = nm, stock = 0, price = pr\<rparr>)\<rparr>)"
    using assms h by (intro create_item_created) (simp_all add: inventory_row_def)
qed simp_all

theorem create_validation_witness:
  "create_item env0 shop0 (Some admin0) (JNum 7) (JStr ''ink'') (JNum 0) JUndefined =
     (Response 201 (Created (JNum 7) (JStr ''ink'') (JNum 0) JUndefined ''Item added successfully''),
      shop0\<lparr>inventory := (inventory shop0)(7 \<mapsto> \<lparr>item_name = ''ink'', stock = 0, price = None\<rparr>)\<rparr>) \<and>
   create_item env0 shop0 (Some admin0) (JNum 0) (JStr ''ink'') (JNum 4) (JNum 2) =
     (Response 400 (Message ''Missing fields''), shop0) \<and>
   create_item env0 shop0 (Some admin0) (JStr []) (JStr ''ink'') (JNum 4) (JNum 2) =
     (Response 400 (Message ''Missing fields''), shop0) \<and>
   create_item env0 shop0 (Some admin0) (JNum 7) (JStr []) (JNum 4) (JNum 2) =
     (Response 400 (Message ''Missing fields''), shop0) \<and>
   create_item env0 shop0 (Some admin0) (JNum 7) (JStr ''ink'') JUndefined (JNum 2) =
     (Response 400 (Message ''Missing fields''), shop0)"
  using create_validation [where u = "Some admin0" and e = env0 and d = shop0 and k = 7
          and nm = "''ink''" and p = JUndefined and pr = None]
        create_validation [where u = "Some admin0" and e = env0 and d = shop0 and i = "JNum 0"
          and n = "JStr ''ink''" and s = "JNum 4" and p = "JNum 2"]
        create_validation [where u = "Some admin0" and e = env0 and d = shop0 and i = "JStr []"
          and n = "JStr ''ink''" and s = "JNum 4" and p = "JNum 2"]
        create_validation [where u = "Some admin0" and e = env0 and d = shop0 and i = "JNum 7"
          and n = "JStr []" and s = "JNum 4" and p = "JNum 2"]
        create_validation [where u = "Some admin0" and e = env0 and d = shop0 and i = "JNum 7"
          and n = "JStr ''ink''" and s = JUndefined and p = "JNum 2"]
  by (simp add: env0_def shop0_def admin0_def)

section \<open>Inventory round trips\<close>

text \<open>
  C9, as stated, at the id \<open>- 5\<close>: the item is created, and \<^verbatim>\<open>GET /:id\<close> with that id
  is answered 400 by \<^verbatim>\<open>validateIdParam\<close>, not by the item.
\<close>

theorem create_get_negative_id:
  "create_item env0 shop0 (Some admin0) (JNum (- 5)) (JStr ''ink'') (JNum 4) (JNum 2) =
     (Response 201 (Created (JNum (- 5)) (JStr ''ink'') (JNum 4) (JNum 2) ''Item added successfully''),
      shop0\<lparr>inventory := (inventory shop0)(- 5 \<mapsto> \<lparr>item_name = ''ink'', stock = 4, price = Some 2\<rparr>)\<rparr>) \<and>
   get_item env0
     (shop0\<lparr>inventory := (inventory shop0)(- 5 \<mapsto> \<lparr>item_name = ''ink'', stock = 4, price = Some 2\<rparr>)\<rparr>)
     (Some (- 5)) =
     (Response 400 (Message ''Invalid item ID''),
      shop0\<lparr>inventory := (inventory shop0)(- 5 \<mapsto> \<lparr>item_name = ''ink'', stock = 4, price = Some 2\<rparr>)\<rparr>)"
  by (simp add: create_item_def insert_inventory_def inventory_row_def get_item_def
        env0_def shop0_def admin0_def)

lemma authorizeAdmin_rejects:
  "authorizeAdmin u = Some r \<Longrightarrow> r = Response 403 (Message ''Forbidden: Admin privilege required'')"
  by (cases u) (auto split: if_splits)

lemma create_item_201:
  assumes "create_item e d u i n s p = (Response 201 b, d')"
  shows "\<exists>k row. inventory_row i n s p = Some (k, row) \<and>
           d' = d\<lparr>inventory := (inventory d)(k \<mapsto> row)\<rparr>"
  using assms
  by (auto simp: create_item_def insert_inventory_def dest: authorizeAdmin_rejects
           split: option.splits if_splits sum.splits sql_error.splits prod.splits)

lemma delete_item_200:
  assumes "delete_item e d u ip = (Response 200 b, d')"
  shows "\<exists>k. ip = Some k \<and> 0 < k \<and> d' = d\<lparr>inventory := (inventory d)(k := None)\<rparr>"
  using assms
  by (cases ip)
     (auto simp: delete_item_def dest: authorizeAdmin_rejects
           split: option.splits if_splits sum.splits)

text \<open>
  C9, amended. For a positive id: after a create that was answered 201, a get of that
  id returns the row of the fields given; after a delete that was answered 200, a get of
  that id is answered 404.
\<close>

theorem inventory_round_trip:
  "(create_item e d u i n s p = (Response 201 b, d') \<and> col_int i = Some k \<and> 0 < k \<and>
    \<not> fails e' 0 \<longrightarrow>
      (\<exists>row. inventory_row i n s p = Some (k, row) \<and>
         get_item e' d' (Some k) = (Response 200 (Item k row), d'))) \<and>
   (delete_item e d u (Some k) = (Response 200 b, d') \<and> \<not> fails e' 0 \<longrightarrow>
      get_item e' d' (Some k) = (Response 404 (Message ''Item not found''), d'))"
proof (intro conjI impI)
  assume h: "create_item e d u i n s p = (Response 201 b, d') \<and> col_int i = Some k \<and> 0 < k \<and>
    \<not> fails e' 0"
  then obtain k' row where r: "inventory_row i n s p = Some (k', row)"
      "d' = d\<lparr>inventory := (inventory d)(k' \<mapsto> row)\<rparr>"
    using create_item_201 by blast
  with h have "k' = k"
    by (auto simp: inventory_row_def split: option.splits)
  with r h have "get_item e' d' (Some k) = (Response 200 (Item k row), d')"
    by (simp add: get_item_def)
  with r \<open>k' = k\<close> show "\<exists>row. inventory_row i n s p = Some (k, row) \<and>
         get_item e' d' (Some k) = (Response 200 (Item k row), d')"
    by blast
next
  assume h: "delete_item e d u (Some k) = (Response 200 b, d') \<and> \<not> fails e' 0"
  then obtain k' where "Some k = Some k'" "0 < k'" "d' = d\<lparr>inventory := (inventory d)(k' := None)\<rparr>"
    using delete_item_200 by blast
  with h show "get_item e' d' (Some k) = (Response 404 (Message ''Item not found''), d')"
    by (simp add: get_item_def)
qed

theorem inventory_round_trip_witness:
  "get_item env0 (snd (create_item env0 shop0 (Some admin0) (JNum 7) (JStr ''ink'') (JNum 4) (JNum 2)))
     (Some 7) =
     (Response 200 (Item 7 \<lparr>item_name = ''ink'', stock = 4, price = Some 2\<rparr>),
      shop0\<lparr>inventory := (inventory shop0)(7 \<mapsto> \<lparr>item_name = ''ink'', stock = 4, price = Some 2\<rparr>)\<rparr>) \<and>
   delete_item env0 shop0 (Some admin0) (Some 1) =
     (Response 200 (Deleted ''Item deleted successfully'' 1 \<lparr>item_name = ''pen'', stock = 5, price = Some 3\<rparr>),
      shop0\<lparr>inventory := (inventory shop0)(1 := None)\<rparr>) \<and>
   get_item env0 (shop0\<lparr>inventory := (inventory shop0)(1 := None)\<rparr>) (Some 1) =
     (Response 404 (Message ''Item not found''), shop0\<lparr>inventory := (inventory shop0)(1 := None)\<rparr>)"
  using inventory_round_trip [where e = env0 and d = shop0 and u = "Some admin0" and i = "JNum 7"
          and n = "JStr ''ink''" and s = "JNum 4" and p = "JNum 2" and k = 7 and e' = env0
          and b = "Created (JNum 7) (JStr ''ink'') (JNum 4) (JNum 2) ''Item added successfully''"
          and d' = "shop0\<lparr>inventory := (inventory shop0)(7 \<mapsto> \<lparr>item_name = ''ink'', stock = 4, price = Some 2\<rparr>)\<rparr>"]
        inventory_round_trip [where e = env0 and d = shop0 and u = "Some admin0" and k = 1 and e' = env0
          and b = "Deleted ''Item deleted successfully'' 1 \<lparr>item_name = ''pen'', stock = 5, price = Some 3\<rparr>"
          and d' = "shop0\<lparr>inventory := (inventory shop0)(1 := None)\<rparr>"]
  by (simp add: create_item_def insert_inventory_def inventory_row_def delete_item_def
        env0_def shop0_def admin0_def)

end
